theory Spec2Isabelle
  imports Main
begin

section \<open>Data model of \<open>src/blob_storage.py\<close>\<close>

text \<open>
  Blob contents and file contents are byte strings. A HOL \<open>char\<close> is one byte, so
  \<open>string\<close> is used for Python's \<open>bytes\<close>.
\<close>

type_synonym bytes = string

text \<open>
  \<^verbatim>\<open>@dataclass(frozen=True, eq=True) class ClientParamsInput\<close>: two string
  fields, compared by value.
\<close>

record ClientParamsInput =
  conn_str :: string
  container_name :: string

text \<open>
  \<^verbatim>\<open>class BlobStorageHandler\<close>: the only attribute ever assigned is
  \<open>self.client_params\<close> (line 38).
\<close>

record BlobStorageHandler =
  client_params :: ClientParamsInput

text \<open>
  The three nested SDK handles (service, container, blob). Each one is a value computed
  from the configuration and a path; a blob handle is the address of a remote object.
\<close>

datatype BlobServiceClient = BlobServiceClient string
datatype ContainerClient = ContainerClient BlobServiceClient string
datatype BlobClient = BlobClient ContainerClient string

text \<open>
  The exceptions that the module raises itself (\<open>ResourceExistsError\<close> and
  \<open>ValueError\<close>, each with its message) and those that reach the caller from the
  SDK or from \<open>open\<close>. \<open>OSError\<close> with its message stands for every other
  \<open>OSError\<close> of the operating system, \<open>PermissionError\<close> included.
\<close>

datatype py_error =
    ResourceExistsError string
  | ResourceNotFoundError
  | ValueError string
  | IsADirectoryError
  | FileNotFoundError
  | NotADirectoryError
  | OSError string

text \<open>An entry of the local file system: a regular file with its content, or a directory.\<close>

datatype entry = File bytes | Dir

text \<open>
  The state that a call can read or change: the handler object itself (\<open>self\<close>), the
  remote objects and their snapshots, addressed by blob handle, and the local files,
  addressed by path as on a POSIX system. \<open>refused\<close> holds what the operating system
  has against opening a path for writing for a reason that the entries do not show
  (no permission, a name that is too long, a read-only medium), with the message of
  the \<open>OSError\<close> it raises then. Network failures are outside this model.
\<close>

record sys =
  handler :: BlobStorageHandler
  blobs :: "BlobClient \<rightharpoonup> bytes"
  snapshots :: "BlobClient \<Rightarrow> bytes list"
  files :: "string \<rightharpoonup> entry"
  refused :: "string \<rightharpoonup> string"

text \<open>
  A call returns the value or the raised exception, together with the state it leaves
  behind: an exception does not undo what was done before it was raised.
\<close>

type_synonym 'a result = "(py_error + 'a) \<times> sys"

section \<open>The backing store and the local file system\<close>

definition from_connection_string :: "string \<Rightarrow> BlobServiceClient" where
  \<comment> \<open>Modelled from the spec: \<open>serviceHandle(connectionDescriptor)\<close> of the SDK, which is
      not part of the repository; the descriptor is opaque.\<close>
  "from_connection_string c = BlobServiceClient c"

definition service_get_container_client :: "BlobServiceClient \<Rightarrow> string \<Rightarrow> ContainerClient" where
  \<comment> \<open>Modelled from the spec: \<open>containerHandle(serviceHandle, containerName)\<close> of the SDK.\<close>
  "service_get_container_client svc name = ContainerClient svc name"

definition container_get_blob_client :: "ContainerClient \<Rightarrow> string \<Rightarrow> BlobClient" where
  \<comment> \<open>Modelled from the spec: \<open>blobHandle(containerHandle, path)\<close> of the SDK.\<close>
  "container_get_blob_client c path = BlobClient c path"

definition blob_client_exists :: "sys \<Rightarrow> BlobClient \<Rightarrow> bool" where
  \<comment> \<open>Modelled from the spec: \<open>exists()\<close> on a blob handle of the SDK; true exactly for
      the objects present, never raising for an absent one.\<close>
  "blob_client_exists s b = (blobs s b \<noteq> None)"

definition download_blob_readall :: "sys \<Rightarrow> BlobClient \<Rightarrow> py_error + bytes" where
  \<comment> \<open>Modelled from the spec: \<open>downloadAll() -> bytes\<close> on a blob handle of the SDK
      (\<open>download_blob().readall()\<close>); the full content, or \<open>NotFound\<close> from the backing
      store when the object is absent.\<close>
  "download_blob_readall s b =
     (case blobs s b of None \<Rightarrow> Inl ResourceNotFoundError | Some content \<Rightarrow> Inr content)"

definition upload_blob :: "sys \<Rightarrow> ContainerClient \<Rightarrow> string \<Rightarrow> bytes \<Rightarrow> bool \<Rightarrow> BlobClient result" where
  \<comment> \<open>Modelled from the spec: \<open>uploadBlob(name, data, overwriteFlag)\<close> of the SDK; with
      the flag set the write replaces whatever is stored under the name, without it an
      existing object is refused. It returns the handle of the written object.\<close>
  "upload_blob s c name content overwrite =
     (let b = container_get_blob_client c name in
      if \<not> overwrite \<and> blob_client_exists s b
      then (Inl (ResourceExistsError ''BlobAlreadyExists''), s)
      else (Inr b, s\<lparr>blobs := (blobs s)(b \<mapsto> content)\<rparr>))"

definition delete_blob :: "sys \<Rightarrow> BlobClient \<Rightarrow> unit result" where
  \<comment> \<open>Modelled from the spec: \<open>deleteBlob(includeSnapshots: true)\<close> on a blob handle of
      the SDK, the call \<open>delete_blob(delete_snapshots="include")\<close>; the object goes with
      its snapshots, and the call does not fail on an object that is absent.\<close>
  "delete_blob s b =
     (Inr (), s\<lparr>blobs := (blobs s)(b := None), snapshots := (snapshots s)(b := [])\<rparr>)"

definition isfile :: "sys \<Rightarrow> string \<Rightarrow> bool" where
  \<comment> \<open>\<open>os.path.isfile\<close>: true for a regular file only.\<close>
  "isfile s path = (case files s path of Some (File _) \<Rightarrow> True | _ \<Rightarrow> False)"

definition strip_slashes :: "string \<Rightarrow> string" where
  \<comment> \<open>A path without its trailing slashes.\<close>
  "strip_slashes path = rev (dropWhile (\<lambda>c. c = CHR ''/'') (rev path))"

definition parent_dir :: "string \<Rightarrow> string" where
  \<comment> \<open>The directory that holds the last component of a path; empty for a name in the
      working directory or in the root, which both exist.\<close>
  "parent_dir path =
     strip_slashes (rev (dropWhile (\<lambda>c. c \<noteq> CHR ''/'') (rev (strip_slashes path))))"

definition create_or_truncate :: "sys \<Rightarrow> string \<Rightarrow> string result" where
  \<comment> \<open>The last step of \<open>open(path, "wb")\<close>, where the operating system may still
      refuse; otherwise the file is there and empty, and is named by its path.\<close>
  "create_or_truncate s path =
     (case refused s path of
        Some msg \<Rightarrow> (Inl (OSError msg), s)
      | None \<Rightarrow> (Inr path, s\<lparr>files := (files s)(path \<mapsto> File [])\<rparr>))"

definition open_wb :: "sys \<Rightarrow> string \<Rightarrow> string result" where
  \<comment> \<open>\<open>open(path, "wb")\<close>. A directory cannot be opened for writing and a regular
      file is truncated. Where nothing is at the path: the empty path names no file,
      Python refuses a path with a null byte, the parent directory must exist and be a
      directory, and a name that ends in a slash is a directory's name; otherwise the
      file is created.\<close>
  "open_wb s path =
     (case files s path of
        Some Dir \<Rightarrow> (Inl IsADirectoryError, s)
      | Some (File old) \<Rightarrow> create_or_truncate s path
      | None \<Rightarrow>
          if path = [] then (Inl FileNotFoundError, s)
          else if CHR 0x00 \<in> set path then (Inl (ValueError ''embedded null byte''), s)
          else
            (case (if parent_dir path = [] then Some Dir else files s (parent_dir path)) of
               None \<Rightarrow> (Inl FileNotFoundError, s)
             | Some (File _) \<Rightarrow> (Inl NotADirectoryError, s)
             | Some Dir \<Rightarrow>
                 if last path = CHR ''/'' then (Inl IsADirectoryError, s)
                 else create_or_truncate s path))"

definition file_write :: "sys \<Rightarrow> string \<Rightarrow> bytes \<Rightarrow> sys" where
  \<comment> \<open>\<open>f.write(data)\<close> on a file just opened with \<open>"wb"\<close>, then closed.\<close>
  "file_write s f content =
     (case files s f of
        Some (File old) \<Rightarrow> s\<lparr>files := (files s)(f \<mapsto> File (old @ content))\<rparr>
      | _ \<Rightarrow> s)"

definition open_rb :: "sys \<Rightarrow> string \<Rightarrow> py_error + bytes" where
  \<comment> \<open>\<open>open(path, "rb")\<close>: the file object, here the content it will yield.\<close>
  "open_rb s path =
     (case files s path of
        None \<Rightarrow> Inl FileNotFoundError
      | Some Dir \<Rightarrow> Inl IsADirectoryError
      | Some (File content) \<Rightarrow> Inr content)"

section \<open>\<open>BlobStorageHandler\<close>\<close>

definition init :: "string \<Rightarrow> string \<Rightarrow> BlobStorageHandler" where
  \<comment> \<open>\<open>__init__(self, container_name, conn_str)\<close>\<close>
  "init container conn =
     \<lparr>client_params = \<lparr>conn_str = conn, container_name = container\<rparr>\<rparr>"

definition create_client :: "BlobStorageHandler \<Rightarrow> BlobServiceClient" where
  "create_client h = from_connection_string (conn_str (client_params h))"

definition get_container_client :: "BlobStorageHandler \<Rightarrow> ContainerClient" where
  "get_container_client h =
     service_get_container_client (create_client h) (container_name (client_params h))"

definition get_blob_client :: "BlobStorageHandler \<Rightarrow> string \<Rightarrow> BlobClient" where
  "get_blob_client h file_path = container_get_blob_client (get_container_client h) file_path"

definition blob_exists :: "sys \<Rightarrow> string \<Rightarrow> bool result" where
  "blob_exists s file_path =
     (Inr (blob_client_exists s (get_blob_client (handler s) file_path)), s)"

definition read_obj :: "sys \<Rightarrow> string \<Rightarrow> bytes result" where
  "read_obj s file_path =
     (download_blob_readall s (get_blob_client (handler s) file_path), s)"

definition download_file :: "sys \<Rightarrow> string \<Rightarrow> string \<Rightarrow> bool result" where
  "download_file s from_file_path to_file_path =
     (case blob_exists s from_file_path of
        (Inl e, s1) \<Rightarrow> (Inl e, s1)
      | (Inr found, s1) \<Rightarrow>
          if \<not> found then
            (Inl (ResourceExistsError
                    (''The specified blob `'' @ to_file_path @ ''` does not exists.'')), s1)
          else if isfile s1 to_file_path then
            (Inl (ValueError
                    (''The specified file `'' @ to_file_path @ ''` already exists.'')), s1)
          else
            (case open_wb s1 to_file_path of
               (Inl e, s2) \<Rightarrow> (Inl e, s2)
             | (Inr f, s2) \<Rightarrow>
                 (case download_blob_readall s2 (get_blob_client (handler s2) from_file_path) of
                    Inl e \<Rightarrow> (Inl e, s2)
                  | Inr content \<Rightarrow> (Inr True, file_write s2 f content))))"

definition save_obj :: "sys \<Rightarrow> bytes \<Rightarrow> string \<Rightarrow> bool \<Rightarrow> BlobClient result" where
  \<comment> \<open>\<open>not overwrite and self.blob_exists(file_path)\<close> asks the store only when
      \<open>overwrite\<close> is false; both remaining paths are the \<open>else\<close> branch.\<close>
  "save_obj s file_obj file_path overwrite =
     (if overwrite then
        upload_blob s (get_container_client (handler s)) file_path file_obj True
      else
        (case blob_exists s file_path of
           (Inl e, s1) \<Rightarrow> (Inl e, s1)
         | (Inr found, s1) \<Rightarrow>
             if found then
               (Inl (ResourceExistsError
                       (''The specified blob `'' @ file_path @ ''` already exists'')), s1)
             else
               upload_blob s1 (get_container_client (handler s1)) file_path file_obj True))"

definition upload_file :: "sys \<Rightarrow> string \<Rightarrow> string \<Rightarrow> bool \<Rightarrow> BlobClient result" where
  "upload_file s from_file_path to_file_path overwrite =
     (case open_rb s from_file_path of
        Inl e \<Rightarrow> (Inl e, s)
      | Inr file_obj \<Rightarrow> save_obj s file_obj to_file_path overwrite)"

definition delete_obj :: "sys \<Rightarrow> string \<Rightarrow> bool result" where
  "delete_obj s file_path =
     (case delete_blob s (get_blob_client (handler s) file_path) of
        (Inl e, s1) \<Rightarrow> (Inl e, s1)
      | (Inr _, s1) \<Rightarrow>
          (case blob_exists s1 file_path of
             (Inl e, s2) \<Rightarrow> (Inl e, s2)
           | (Inr found, s2) \<Rightarrow> if found then (Inr False, s2) else (Inr True, s2)))"

section \<open>Example states\<close>

text \<open>A client for the container \<open>docs\<close>, with an empty store and no local files.\<close>

definition empty_sys :: sys where
  "empty_sys =
     \<lparr>handler = init ''docs'' ''conn'',
      blobs = Map.empty,
      snapshots = (\<lambda>_. []),
      files = Map.empty,
      refused = Map.empty\<rparr>"

text \<open>
  The same client with one remote object \<open>a.txt\<close> that has a snapshot, a local
  directory \<open>out\<close>, a local file \<open>note.txt\<close>, and a name \<open>locked.bin\<close> that the
  operating system does not let it create.
\<close>

definition docs_sys :: sys where
  "docs_sys =
     \<lparr>handler = init ''docs'' ''conn'',
      blobs = [get_blob_client (init ''docs'' ''conn'') ''a.txt'' \<mapsto> ''hello''],
      snapshots = (\<lambda>_. [])(get_blob_client (init ''docs'' ''conn'') ''a.txt'' := [''old'']),
      files = [''out'' \<mapsto> Dir, ''note.txt'' \<mapsto> File ''abc''],
      refused = [''locked.bin'' \<mapsto> ''Permission denied'']\<rparr>"

text \<open>The empty store after \<open>hello\<close> has been saved as \<open>a.txt\<close>.\<close>

definition hello_sys :: sys where
  "hello_sys =
     \<lparr>handler = init ''docs'' ''conn'',
      blobs = [get_blob_client (init ''docs'' ''conn'') ''a.txt'' \<mapsto> ''hello''],
      snapshots = (\<lambda>_. []),
      files = Map.empty,
      refused = Map.empty\<rparr>"

section \<open>Basic facts\<close>

lemmas sdk_defs = from_connection_string_def service_get_container_client_def
  container_get_blob_client_def blob_client_exists_def download_blob_readall_def
  upload_blob_def delete_blob_def

lemmas fs_defs = isfile_def open_wb_def create_or_truncate_def file_write_def open_rb_def


lemmas handle_defs = create_client_def get_container_client_def get_blob_client_def

lemmas example_defs = empty_sys_def docs_sys_def init_def

lemma blob_exists_eq:
  "blob_exists s p = (Inr (blobs s (get_blob_client (handler s) p) \<noteq> None), s)"
  by (simp add: blob_exists_def blob_client_exists_def)

lemma upload_blob_overwrite:
  "upload_blob s (get_container_client h) p d True =
     (Inr (get_blob_client h p), s\<lparr>blobs := (blobs s)(get_blob_client h p \<mapsto> d)\<rparr>)"
  by (simp add: upload_blob_def get_blob_client_def Let_def)

section \<open>\<open>download_file\<close>\<close>




section \<open>\<open>save_obj\<close>\<close>

text \<open>
  Claim C2. Without \<open>overwrite\<close>, \<open>save_obj\<close> on a path that already holds an object
  raises \<open>ResourceExistsError\<close> (the spec's \<open>AlreadyExists\<close> kind) and leaves the state
  unchanged. In every other case (\<open>overwrite\<close> set, or the object absent) it is the
  SDK's \<open>upload_blob\<close> called with \<open>overwrite=True\<close>, which stores the data under the
  path and returns the handle of the written object.
\<close>

theorem save_obj_cases:
  "(\<not> overwrite \<and> blobs s (get_blob_client (handler s) file_path) \<noteq> None \<longrightarrow>
      save_obj s file_obj file_path overwrite =
        (Inl (ResourceExistsError
                (''The specified blob `'' @ file_path @ ''` already exists'')), s))
   \<and> (overwrite \<or> blobs s (get_blob_client (handler s) file_path) = None \<longrightarrow>
      save_obj s file_obj file_path overwrite =
        upload_blob s (get_container_client (handler s)) file_path file_obj True
      \<and> upload_blob s (get_container_client (handler s)) file_path file_obj True =
        (Inr (get_blob_client (handler s) file_path),
         s\<lparr>blobs := (blobs s)(get_blob_client (handler s) file_path \<mapsto> file_obj)\<rparr>))"
  by (auto simp: save_obj_def blob_exists_eq upload_blob_overwrite)

text \<open>C2 at concrete inputs: a refused write, a forced overwrite, a first write.\<close>

theorem save_obj_cases_witness:
  "blobs docs_sys (get_blob_client (handler docs_sys) ''a.txt'') \<noteq> None
   \<and> save_obj docs_sys ''world'' ''a.txt'' False =
        (Inl (ResourceExistsError ''The specified blob `a.txt` already exists''), docs_sys)
   \<and> save_obj docs_sys ''world'' ''a.txt'' True =
        (Inr (get_blob_client (handler docs_sys) ''a.txt''),
         docs_sys\<lparr>blobs :=
           (blobs docs_sys)(get_blob_client (handler docs_sys) ''a.txt'' \<mapsto> ''world'')\<rparr>)
   \<and> blobs empty_sys (get_blob_client (handler empty_sys) ''a.txt'') = None
   \<and> save_obj empty_sys ''hello'' ''a.txt'' False =
        (Inr (get_blob_client (handler empty_sys) ''a.txt''),
         empty_sys\<lparr>blobs :=
           (blobs empty_sys)(get_blob_client (handler empty_sys) ''a.txt'' \<mapsto> ''hello'')\<rparr>)"
proof -
  have a: "blobs docs_sys (get_blob_client (handler docs_sys) ''a.txt'') \<noteq> None"
    by (simp add: example_defs)
  have b: "blobs empty_sys (get_blob_client (handler empty_sys) ''a.txt'') = None"
    by (simp add: example_defs)
  have c: "save_obj docs_sys ''world'' ''a.txt'' False =
        (Inl (ResourceExistsError ''The specified blob `a.txt` already exists''), docs_sys)"
    using a save_obj_cases [where overwrite = False and s = docs_sys
        and file_path = "''a.txt''" and file_obj = "''world''"]
    by simp
  have d: "save_obj docs_sys ''world'' ''a.txt'' True =
        (Inr (get_blob_client (handler docs_sys) ''a.txt''),
         docs_sys\<lparr>blobs :=
           (blobs docs_sys)(get_blob_client (handler docs_sys) ''a.txt'' \<mapsto> ''world'')\<rparr>)"
    using save_obj_cases [where overwrite = True and s = docs_sys
        and file_path = "''a.txt''" and file_obj = "''world''"]
    by simp
  have e: "save_obj empty_sys ''hello'' ''a.txt'' False =
        (Inr (get_blob_client (handler empty_sys) ''a.txt''),
         empty_sys\<lparr>blobs :=
           (blobs empty_sys)(get_blob_client (handler empty_sys) ''a.txt'' \<mapsto> ''hello'')\<rparr>)"
    using b save_obj_cases [where overwrite = False and s = empty_sys
        and file_path = "''a.txt''" and file_obj = "''hello''"]
    by simp
  from a b c d e show ?thesis
    by simp
qed

section \<open>\<open>delete_obj\<close>\<close>

text \<open>
  Claim C3. \<open>delete_obj\<close> removes the object together with its snapshots and returns
  \<open>True\<close> exactly when the object does not exist afterwards. On an object that exists
  (and with nobody else writing) it returns \<open>True\<close>, and \<open>blob_exists\<close> on the same
  path then returns \<open>False\<close>.
\<close>

theorem delete_obj_post:
  "\<exists>s'. delete_obj s file_path =
          (Inr (\<not> blob_client_exists s' (get_blob_client (handler s') file_path)), s')
      \<and> blobs s' (get_blob_client (handler s) file_path) = None
      \<and> snapshots s' (get_blob_client (handler s) file_path) = []
      \<and> (blob_client_exists s (get_blob_client (handler s) file_path) \<longrightarrow>
           delete_obj s file_path = (Inr True, s') \<and> blob_exists s' file_path = (Inr False, s'))"
  by (simp add: delete_obj_def delete_blob_def blob_exists_eq blob_client_exists_def)

text \<open>C3 on the stored object \<open>a.txt\<close>, which has a snapshot.\<close>

theorem delete_obj_post_witness:
  "blob_client_exists docs_sys (get_blob_client (handler docs_sys) ''a.txt'')
   \<and> (\<exists>s'. delete_obj docs_sys ''a.txt'' = (Inr True, s')
         \<and> blob_exists s' ''a.txt'' = (Inr False, s')
         \<and> snapshots s' (get_blob_client (handler docs_sys) ''a.txt'') = [])"
proof -
  have a: "blob_client_exists docs_sys (get_blob_client (handler docs_sys) ''a.txt'')"
    by (simp add: example_defs blob_client_exists_def)
  from delete_obj_post [of docs_sys "''a.txt''"] a show ?thesis
    by auto
qed

text \<open>
  Claim C4. Where no object exists at the path, the delete call of the backing store
  raises nothing, and \<open>delete_obj\<close> returns \<open>True\<close>: the object is absent afterwards.
\<close>

theorem delete_obj_absent:
  "blobs s (get_blob_client (handler s) file_path) = None \<Longrightarrow>
     fst (delete_blob s (get_blob_client (handler s) file_path)) = Inr ()
     \<and> fst (delete_obj s file_path) = Inr True
     \<and> blob_exists (snd (delete_obj s file_path)) file_path =
         (Inr False, snd (delete_obj s file_path))"
  by (simp add: delete_obj_def delete_blob_def blob_exists_eq)

text \<open>C4 on the empty store.\<close>

theorem delete_obj_absent_witness:
  "blobs empty_sys (get_blob_client (handler empty_sys) ''a.txt'') = None
   \<and> fst (delete_obj empty_sys ''a.txt'') = Inr True"
proof -
  have a: "blobs empty_sys (get_blob_client (handler empty_sys) ''a.txt'') = None"
    by (simp add: example_defs)
  from delete_obj_absent [OF a] a show ?thesis
    by simp
qed

section \<open>Saving twice\<close>

text \<open>
  Claim C5. Once \<open>save_obj\<close> without \<open>overwrite\<close> has succeeded on a path, a second
  \<open>save_obj\<close> without \<open>overwrite\<close> on that path raises \<open>ResourceExistsError\<close> and
  the stored content is still the first payload; a second \<open>save_obj\<close> with
  \<open>overwrite\<close> succeeds instead, and \<open>read_obj\<close> then returns the second payload.
\<close>

theorem save_obj_twice:
  assumes "save_obj s data file_path False = (Inr b, s1)"
  shows "save_obj s1 data2 file_path False =
           (Inl (ResourceExistsError
                   (''The specified blob `'' @ file_path @ ''` already exists'')), s1)
         \<and> read_obj s1 file_path = (Inr data, s1)
         \<and> fst (save_obj s1 data2 file_path True) = Inr b
         \<and> read_obj (snd (save_obj s1 data2 file_path True)) file_path =
             (Inr data2, snd (save_obj s1 data2 file_path True))"
proof -
  let ?k = "get_blob_client (handler s) file_path"
  from assms have absent: "blobs s ?k = None"
    by (auto simp: save_obj_def blob_exists_eq split: if_splits)
  with assms have s1: "s1 = s\<lparr>blobs := (blobs s)(?k \<mapsto> data)\<rparr>" and b: "b = ?k"
    by (auto simp: save_obj_def blob_exists_eq upload_blob_overwrite)
  show ?thesis
    by (simp add: s1 b save_obj_def blob_exists_eq upload_blob_overwrite read_obj_def
        download_blob_readall_def)
qed

text \<open>C5 on the empty store, with the payloads \<open>hello\<close> and \<open>world\<close>.\<close>

theorem save_obj_twice_witness:
  "save_obj empty_sys ''hello'' ''a.txt'' False =
     (Inr (get_blob_client (init ''docs'' ''conn'') ''a.txt''), hello_sys)
   \<and> save_obj hello_sys ''world'' ''a.txt'' False =
       (Inl (ResourceExistsError ''The specified blob `a.txt` already exists''), hello_sys)
   \<and> read_obj hello_sys ''a.txt'' = (Inr ''hello'', hello_sys)
   \<and> fst (save_obj hello_sys ''world'' ''a.txt'' True) =
       Inr (get_blob_client (init ''docs'' ''conn'') ''a.txt'')
   \<and> fst (read_obj (snd (save_obj hello_sys ''world'' ''a.txt'' True)) ''a.txt'') = Inr ''world''"
proof -
  have a: "save_obj empty_sys ''hello'' ''a.txt'' False =
     (Inr (get_blob_client (init ''docs'' ''conn'') ''a.txt''), hello_sys)"
    by (simp add: save_obj_def blob_exists_eq upload_blob_overwrite empty_sys_def hello_sys_def)
  from save_obj_twice [OF a, of "''world''"] a show ?thesis
    by simp
qed

section \<open>\<open>read_obj\<close>\<close>

text \<open>
  Claim C6. \<open>read_obj\<close> is the SDK's download of the whole object and nothing else:
  it makes no existence check of its own. It returns the full stored content of an
  object that exists, and the \<open>NotFound\<close> error of the backing store reaches the
  caller when the object is absent.
\<close>

theorem read_obj_cases:
  "read_obj s file_path =
     (download_blob_readall s (get_blob_client (handler s) file_path), s)
   \<and> (blobs s (get_blob_client (handler s) file_path) = Some content \<longrightarrow>
        read_obj s file_path = (Inr content, s))
   \<and> (blobs s (get_blob_client (handler s) file_path) = None \<longrightarrow>
        read_obj s file_path = (Inl ResourceNotFoundError, s))"
  by (simp add: read_obj_def download_blob_readall_def)

text \<open>C6 on a stored and on a missing object.\<close>

theorem read_obj_cases_witness:
  "blobs docs_sys (get_blob_client (handler docs_sys) ''a.txt'') = Some ''hello''
   \<and> read_obj docs_sys ''a.txt'' = (Inr ''hello'', docs_sys)
   \<and> blobs docs_sys (get_blob_client (handler docs_sys) ''b.txt'') = None
   \<and> read_obj docs_sys ''b.txt'' = (Inl ResourceNotFoundError, docs_sys)"
proof -
  have a: "blobs docs_sys (get_blob_client (handler docs_sys) ''a.txt'') = Some ''hello''"
    by (simp add: example_defs)
  have b: "blobs docs_sys (get_blob_client (handler docs_sys) ''b.txt'') = None"
    by (simp add: example_defs handle_defs sdk_defs)
  from a b read_obj_cases [of docs_sys "''a.txt''" "''hello''"]
    read_obj_cases [of docs_sys "''b.txt''"]
  show ?thesis
    by blast
qed

section \<open>\<open>upload_file\<close>\<close>

text \<open>
  Claim C7. For a local path that holds a regular file, \<open>upload_file\<close> opens it for
  reading and is \<open>save_obj\<close> on its content with the same remote path and flag: the
  same handle, the same exception, the same state afterwards.
\<close>

theorem upload_file_delegates:
  "files s from_file_path = Some (File content) \<Longrightarrow>
     open_rb s from_file_path = Inr content
     \<and> upload_file s from_file_path to_file_path overwrite =
         save_obj s content to_file_path overwrite"
  by (simp add: upload_file_def open_rb_def)

text \<open>C7 on the local file \<open>note.txt\<close>, once refused and once written.\<close>

theorem upload_file_delegates_witness:
  "files docs_sys ''note.txt'' = Some (File ''abc'')
   \<and> upload_file docs_sys ''note.txt'' ''a.txt'' False = save_obj docs_sys ''abc'' ''a.txt'' False
   \<and> upload_file docs_sys ''note.txt'' ''a.txt'' False =
       (Inl (ResourceExistsError ''The specified blob `a.txt` already exists''), docs_sys)
   \<and> fst (upload_file docs_sys ''note.txt'' ''b.txt'' False) =
       Inr (get_blob_client (handler docs_sys) ''b.txt'')"
proof -
  have a: "files docs_sys ''note.txt'' = Some (File ''abc'')"
    by (simp add: example_defs)
  have b: "save_obj docs_sys ''abc'' ''a.txt'' False =
       (Inl (ResourceExistsError ''The specified blob `a.txt` already exists''), docs_sys)"
    by (simp add: save_obj_def blob_exists_eq example_defs)
  have c: "fst (save_obj docs_sys ''abc'' ''b.txt'' False) =
       Inr (get_blob_client (handler docs_sys) ''b.txt'')"
    by (simp add: save_obj_def blob_exists_eq example_defs handle_defs sdk_defs Let_def)
  from a b c upload_file_delegates [OF a, of "''a.txt''" False]
    upload_file_delegates [OF a, of "''b.txt''" False]
  show ?thesis
    by simp
qed

section \<open>The configuration\<close>

text \<open>
  Claim C8. The constructor stores the connection descriptor and the container name,
  and none of \<open>blob_exists\<close>, \<open>read_obj\<close>, \<open>download_file\<close>, \<open>upload_file\<close>,
  \<open>save_obj\<close> and \<open>delete_obj\<close> changes the handler, whose configuration is its
  only attribute, whether the call returns or raises.
\<close>

theorem handler_unchanged:
  "client_params (init container conn) = \<lparr>conn_str = conn, container_name = container\<rparr>
   \<and> handler (snd (blob_exists s p)) = handler s
   \<and> handler (snd (read_obj s p)) = handler s
   \<and> handler (snd (download_file s p q)) = handler s
   \<and> handler (snd (upload_file s q p overwrite)) = handler s
   \<and> handler (snd (save_obj s content p overwrite)) = handler s
   \<and> handler (snd (delete_obj s p)) = handler s"
  by (auto simp: init_def blob_exists_eq read_obj_def download_file_def upload_file_def
      save_obj_def delete_obj_def upload_blob_overwrite delete_blob_def fs_defs
      download_blob_readall_def
      split: option.splits entry.splits sum.splits)

section \<open>The guards of \<open>download_file\<close>\<close>

text \<open>
  Claim C9. When the remote object is absent, the message of the error that
  \<open>download_file\<close> raises names the local destination \<open>to_file_path\<close> as the blob that
  "does not exists"; the remote path \<open>from_file_path\<close> does not occur in it.
\<close>

theorem download_file_missing_message:
  "\<not> blob_client_exists s (get_blob_client (handler s) from_file_path) \<Longrightarrow>
     download_file s from_file_path to_file_path =
       (Inl (ResourceExistsError
               (''The specified blob `'' @ to_file_path @ ''` does not exists.'')), s)"
  by (simp add: download_file_def blob_exists_def)

text \<open>C9 with a remote path \<open>missing.txt\<close> and a destination \<open>new.bin\<close>.\<close>

theorem download_file_missing_message_witness:
  "\<not> blob_client_exists docs_sys (get_blob_client (handler docs_sys) ''missing.txt'')
   \<and> download_file docs_sys ''missing.txt'' ''new.bin'' =
       (Inl (ResourceExistsError ''The specified blob `new.bin` does not exists.''), docs_sys)"
proof -
  have a: "\<not> blob_client_exists docs_sys (get_blob_client (handler docs_sys) ''missing.txt'')"
    by (simp add: example_defs handle_defs sdk_defs)
  from download_file_missing_message [OF a, of "''new.bin''"] a show ?thesis
    by simp
qed




end
